theory Spec2Isabelle
  imports Complex_Main "HOL-Library.Sublist"
begin

section \<open>Python values\<close>

text \<open>
  The values the client handles are decoded JSON bodies and keyword arguments: \<open>None\<close>,
  booleans, integers, floats, strings, lists and dictionaries with string keys. A float is
  carried as the real number it denotes; the code only ever asks whether it is zero. A
  dictionary is an association list in insertion order, as Python keeps it; its keys are
  distinct.
\<close>

datatype pyval =
    PNone
  | PBool bool
  | PInt int
  | PFloat real
  | PStr string
  | PList "pyval list"
  | PDict "(string \<times> pyval) list"

type_synonym pydict = "(string \<times> pyval) list"

text \<open>Truthiness, as \<open>if x\<close> and \<open>not x\<close> test it.\<close>

fun truthy :: "pyval \<Rightarrow> bool" where
  "truthy PNone = False"
| "truthy (PBool b) = b"
| "truthy (PInt i) = (i \<noteq> 0)"
| "truthy (PFloat r) = (r \<noteq> 0)"
| "truthy (PStr s) = (s \<noteq> [])"
| "truthy (PList xs) = (xs \<noteq> [])"
| "truthy (PDict d) = (d \<noteq> [])"

text \<open>\<open>isinstance(x, dict)\<close>.\<close>

fun is_dict :: "pyval \<Rightarrow> bool" where
  "is_dict (PDict d) = True"
| "is_dict v = False"

section \<open>Exceptions\<close>

text \<open>
  An exception is its class, its message and its \<open>__cause__\<close> (set by \<open>raise ... from\<close>).
  \<open>HttpRequestError\<close> stands for every instance of that class, which is what the
  \<open>except HttpRequestError\<close> clauses catch; \<open>OtherError\<close> is any exception that is not one.
\<close>

datatype exn_class =
    AddressNotFound
  | AddressFrException
  | HttpRequestError
  | KeyError
  | TypeError
  | OtherError string

datatype exn = Exn (exn_class: exn_class) (exn_message: string) (exn_cause: "exn option")

section \<open>Dictionary operations\<close>

text \<open>\<open>key in d\<close> and \<open>d[key]\<close>. Both are only evaluated on dictionaries by the code below
  (the \<open>isinstance\<close> tests come first); on any other value they are given the answer of a
  missing key.\<close>

fun py_in :: "string \<Rightarrow> pyval \<Rightarrow> bool" where
  "py_in k (PDict d) = (k \<in> set (map fst d))"
| "py_in k v = False"

fun py_getitem :: "pyval \<Rightarrow> string \<Rightarrow> exn + pyval" where
  "py_getitem (PDict d) k =
     (case map_of d k of None \<Rightarrow> Inl (Exn KeyError k None) | Some v \<Rightarrow> Inr v)"
| "py_getitem v k = Inl (Exn KeyError k None)"

section \<open>The response validator\<close>

text \<open>
  An f-string field \<open>{x}\<close> inserts a string as it is. Every other value is rendered by the
  interpreter's \<open>str\<close>, which is taken as the parameter \<open>py_str\<close>.
\<close>

definition format_field :: "(pyval \<Rightarrow> string) \<Rightarrow> pyval \<Rightarrow> string" where
  "format_field py_str v = (case v of PStr s \<Rightarrow> s | _ \<Rightarrow> py_str v)"

text \<open>
  \<open>AddressFr._check_response\<close>. \<open>Inl\<close> is a raised exception, \<open>Inr\<close> a returned value;
  falling off the end of the function returns \<open>None\<close>.
\<close>

definition check_response :: "(pyval \<Rightarrow> string) \<Rightarrow> pyval \<Rightarrow> exn + pyval" where
  "check_response py_str response =
     (if truthy response \<and> is_dict response \<and> py_in ''features'' response then
        (case py_getitem response ''features'' of
           Inl e \<Rightarrow> Inl e
         | Inr features \<Rightarrow>
             if \<not> truthy features
             then Inl (Exn AddressNotFound ''No addresses found for the given query.'' None)
             else Inr features)
      else if \<not> truthy response \<or> \<not> is_dict response then
        Inl (Exn AddressFrException ''Invalid response from address service.'' None)
      else if py_in ''error'' response then
        (case py_getitem response ''error'' of
           Inl e \<Rightarrow> Inl e
         | Inr err \<Rightarrow>
             Inl (Exn AddressFrException (''Error in response: '' @ format_field py_str err) None))
      else if \<not> py_in ''features'' response then
        Inl (Exn AddressFrException ''No features found in the response.'' None)
      else
        (case py_getitem response ''features'' of
           Inl e \<Rightarrow> Inl e
         | Inr features \<Rightarrow>
             if \<not> truthy features
             then Inl (Exn AddressFrException ''No features found in the response.'' None)
             else Inr PNone))"

section \<open>Building the query parameters\<close>

text \<open>
  \<open>d[k] = v\<close> on an insertion-ordered dictionary: an existing key keeps its place and gets
  the new value, a new key goes to the end.
\<close>

fun dict_setitem :: "pydict \<Rightarrow> string \<Rightarrow> pyval \<Rightarrow> pydict" where
  "dict_setitem [] k v = [(k, v)]"
| "dict_setitem ((k', v') # d) k v =
     (if k' = k then (k', v) # d else (k', v') # dict_setitem d k v)"

text \<open>The spread \<open>**other\<close> inside a dictionary display: the items of \<open>other\<close> are stored one
  after the other, in order.\<close>

definition dict_update :: "pydict \<Rightarrow> pydict \<Rightarrow> pydict" where
  "dict_update d other = foldl (\<lambda>acc (k, v). dict_setitem acc k v) d other"

text \<open>\<open>{"q": query, "limit": limit, **kwargs}\<close> in \<open>async_search\<close>.\<close>

definition search_params :: "pyval \<Rightarrow> pyval \<Rightarrow> pydict \<Rightarrow> pydict" where
  "search_params query limit kwargs =
     dict_update (dict_setitem (dict_setitem [] ''q'' query) ''limit'' limit) kwargs"

text \<open>\<open>{**kwargs}\<close> in \<open>async_reverse\<close>.\<close>

definition reverse_params :: "pydict \<Rightarrow> pydict" where
  "reverse_params kwargs = dict_update [] kwargs"

section \<open>The request layer\<close>

text \<open>
  What the client does to the outside world: the HTTP calls it has sent and the lines it
  has logged, oldest first.
\<close>

record http_call =
  http_method :: string
  http_path :: string
  http_params :: pydict

record world =
  sent :: "http_call list"
  logged :: "string list"

text \<open>The remote service and the network: what comes back for a call, a decoded JSON body
  or a raised exception.\<close>

type_synonym transport = "http_call \<Rightarrow> exn + pyval"

text \<open>
  Modelled from the spec: \<open>HTTPRequest.async_request\<close>, inherited from \<open>auth.py\<close>, is missing
  from the sources. The spec describes the request layer as performing an HTTP GET, given a
  path and query parameters, and returning a decoded JSON body or raising a transport-level
  error. What comes back is left to the parameter \<open>transport\<close>.
\<close>

definition async_request ::
  "transport \<Rightarrow> string \<Rightarrow> pydict \<Rightarrow> world \<Rightarrow> (exn + pyval) \<times> world" where
  "async_request transport path params w =
     (let call = \<lparr>http_method = ''GET'', http_path = path, http_params = params\<rparr>
      in (transport call, w\<lparr>sent := sent w @ [call]\<rparr>))"

section \<open>The operations\<close>

text \<open>
  \<open>AddressFr.async_search\<close> and \<open>AddressFr.async_reverse\<close>. \<open>base_url\<close> is the constant
  \<open>API_BASE_URL\<close> of \<open>consts.py\<close>. An exception of the request layer that is not an
  \<open>HttpRequestError\<close> is not caught and propagates.
\<close>

definition async_search ::
  "transport \<Rightarrow> string \<Rightarrow> (pyval \<Rightarrow> string) \<Rightarrow> pyval \<Rightarrow> pyval \<Rightarrow> pydict \<Rightarrow> world
     \<Rightarrow> (exn + pyval) \<times> world" where
  "async_search transport base_url py_str query limit kwargs w =
     (case async_request transport (base_url @ ''/search'') (search_params query limit kwargs) w of
        (Inl error, w') \<Rightarrow>
          if exn_class error = HttpRequestError
          then (Inl (Exn AddressNotFound ''Address not found.'' (Some error)),
                w'\<lparr>logged := logged w' @ [''Failed to query address: '' @ exn_message error]\<rparr>)
          else (Inl error, w')
      | (Inr addresses, w') \<Rightarrow> (check_response py_str addresses, w'))"

definition async_reverse ::
  "transport \<Rightarrow> string \<Rightarrow> (pyval \<Rightarrow> string) \<Rightarrow> pydict \<Rightarrow> world
     \<Rightarrow> (exn + pyval) \<times> world" where
  "async_reverse transport base_url py_str kwargs w =
     (case async_request transport (base_url @ ''/reverse'') (reverse_params kwargs) w of
        (Inl error, w') \<Rightarrow>
          if exn_class error = HttpRequestError
          then (Inl (Exn AddressNotFound ''Address not found.'' (Some error)),
                w'\<lparr>logged := logged w' @ [''Failed to query address: '' @ exn_message error]\<rparr>)
          else (Inl error, w')
      | (Inr addresses, w') \<Rightarrow> (check_response py_str addresses, w'))"

text \<open>
  Calling \<open>async_search(self, query, limit=10, **kwargs)\<close> with positional arguments
  \<open>args\<close> (after \<open>self\<close>) and keyword arguments \<open>kws\<close>: the interpreter binds \<open>query\<close> and
  \<open>limit\<close> by position or by name, gives \<open>limit\<close> its default, collects every other keyword
  in \<open>kwargs\<close>, and raises \<open>TypeError\<close> for a parameter given twice, a missing \<open>query\<close> or a
  third positional argument. Which of several such errors is reported, and the wording of
  the interpreter's messages, are not modelled.
\<close>

definition extra_keywords :: "pydict \<Rightarrow> pydict" where
  "extra_keywords kws = filter (\<lambda>(k, v). k \<noteq> ''query'' \<and> k \<noteq> ''limit'') kws"

fun bind_search :: "pyval list \<Rightarrow> pydict \<Rightarrow> exn + (pyval \<times> pyval \<times> pydict)" where
  "bind_search [] kws =
     (if ''self'' \<in> set (map fst kws) then Inl (Exn TypeError ''multiple values for self'' None)
      else case map_of kws ''query'' of
        None \<Rightarrow> Inl (Exn TypeError ''missing argument query'' None)
      | Some query \<Rightarrow>
          Inr (query, (case map_of kws ''limit'' of None \<Rightarrow> PInt 10 | Some limit \<Rightarrow> limit),
               extra_keywords kws))"
| "bind_search [query] kws =
     (if ''self'' \<in> set (map fst kws) then Inl (Exn TypeError ''multiple values for self'' None)
      else if ''query'' \<in> set (map fst kws)
      then Inl (Exn TypeError ''multiple values for query'' None)
      else Inr (query, (case map_of kws ''limit'' of None \<Rightarrow> PInt 10 | Some limit \<Rightarrow> limit),
                extra_keywords kws))"
| "bind_search [query, limit] kws =
     (if ''self'' \<in> set (map fst kws) then Inl (Exn TypeError ''multiple values for self'' None)
      else if ''query'' \<in> set (map fst kws)
      then Inl (Exn TypeError ''multiple values for query'' None)
      else if ''limit'' \<in> set (map fst kws)
      then Inl (Exn TypeError ''multiple values for limit'' None)
      else Inr (query, limit, extra_keywords kws))"
| "bind_search (query # limit # extra # args) kws =
     Inl (Exn TypeError ''too many positional arguments'' None)"

definition call_async_search ::
  "transport \<Rightarrow> string \<Rightarrow> (pyval \<Rightarrow> string) \<Rightarrow> pyval list \<Rightarrow> pydict \<Rightarrow> world
     \<Rightarrow> (exn + pyval) \<times> world" where
  "call_async_search transport base_url py_str args kws w =
     (case bind_search args kws of
        Inl e \<Rightarrow> (Inl e, w)
      | Inr (query, limit, kwargs) \<Rightarrow>
          async_search transport base_url py_str query limit kwargs w)"

section \<open>Facts about the validator\<close>

lemma py_in_map_of: "map_of d k = Some v \<Longrightarrow> py_in k (PDict d)"
  by (force dest: map_of_SomeD)

lemma check_response_has_features:
  assumes "map_of d ''features'' = Some v"
  shows "check_response py_str (PDict d) =
           (if truthy v then Inr v
            else Inl (Exn AddressNotFound ''No addresses found for the given query.'' None))"
proof -
  from assms have "d \<noteq> []" by auto
  moreover from assms have "py_in ''features'' (PDict d)" by (rule py_in_map_of)
  ultimately show ?thesis using assms by (simp add: check_response_def)
qed

lemma py_getitem_in: "py_in k r \<Longrightarrow> \<exists>v. py_getitem r k = Inr v"
  by (cases r) (auto simp: map_of_eq_None_iff image_iff split: option.splits)

text \<open>
  Claim C1. A body that is a dictionary holding, under the key \<open>features\<close>, a non-empty list
  is answered with exactly that list, whatever other keys the dictionary has (an \<open>error\<close>
  key among them).
\<close>

theorem check_response_returns_features:
  assumes "map_of d ''features'' = Some (PList xs)" and "xs \<noteq> []"
  shows "check_response py_str (PDict d) = Inr (PList xs)"
  using assms by (simp add: check_response_has_features)

theorem check_response_returns_features_witness:
  "map_of [(''error'', PStr ''bad query''), (''features'', PList [PDict [(''type'', PStr ''Feature'')]])]
      ''features'' = Some (PList [PDict [(''type'', PStr ''Feature'')]])
   \<and> [PDict [(''type'', PStr ''Feature'')]] \<noteq> []
   \<and> check_response (\<lambda>v. [])
        (PDict [(''error'', PStr ''bad query''), (''features'', PList [PDict [(''type'', PStr ''Feature'')]])])
      = Inr (PList [PDict [(''type'', PStr ''Feature'')]])"
  using check_response_returns_features
    [of "[(''error'', PStr ''bad query''), (''features'', PList [PDict [(''type'', PStr ''Feature'')]])]"
        "[PDict [(''type'', PStr ''Feature'')]]" "\<lambda>v. []"]
  by simp

text \<open>
  Claim C3. A body that is a dictionary holding the empty list under \<open>features\<close> (the body
  \<open>{"features": []}\<close> in particular) raises \<open>AddressNotFound\<close>.
\<close>

theorem check_response_empty_features:
  assumes "map_of d ''features'' = Some (PList [])"
  shows "check_response py_str (PDict d) =
           Inl (Exn AddressNotFound ''No addresses found for the given query.'' None)"
  using assms by (simp add: check_response_has_features)

theorem check_response_empty_features_witness:
  "map_of [(''features'', PList [])] ''features'' = Some (PList [])
   \<and> check_response (\<lambda>v. []) (PDict [(''features'', PList [])]) =
       Inl (Exn AddressNotFound ''No addresses found for the given query.'' None)"
  using check_response_empty_features [of "[(''features'', PList [])]" "\<lambda>v. []"]
  by simp

text \<open>
  Claim C5, as amended. A body that is falsy (\<open>None\<close>, the empty dictionary, ...) or is
  not a dictionary raises \<open>AddressFrException\<close>; its message is
  \<open>Invalid response from address service.\<close>, not \<open>Invalid response from service\<close>.
\<close>

theorem check_response_invalid:
  assumes "\<not> truthy response \<or> \<not> is_dict response"
  shows "check_response py_str response =
           Inl (Exn AddressFrException ''Invalid response from address service.'' None)"
  using assms by (auto simp: check_response_def)

theorem check_response_invalid_witness:
  "\<not> truthy (PDict [])
   \<and> check_response (\<lambda>v. []) (PDict []) =
       Inl (Exn AddressFrException ''Invalid response from address service.'' None)"
  using check_response_invalid [of "PDict []" "\<lambda>v. []"]
  by simp

text \<open>
  Claim C5 as first stated fails on the empty dictionary: the message raised there is not
  \<open>Invalid response from service\<close> and does not contain it.
\<close>

theorem check_response_invalid_message_counterexample:
  "check_response (\<lambda>v. []) (PDict []) =
     Inl (Exn AddressFrException ''Invalid response from address service.'' None)
   \<and> check_response (\<lambda>v. []) (PDict []) \<noteq>
     Inl (Exn AddressFrException ''Invalid response from service'' None)
   \<and> \<not> sublist ''Invalid response from service'' ''Invalid response from address service.''"
  apply (simp add: check_response_def)
  apply (simp add: sublist_Cons_right prefix_Cons)
  done

text \<open>
  Claim C6. A body that is a dictionary without the key \<open>features\<close> and with the key
  \<open>error\<close> raises \<open>AddressFrException\<close>, and the message contains the text of the error
  value: it is \<open>Error in response: \<close> followed by that text.
\<close>

theorem check_response_error_key:
  assumes "''features'' \<notin> set (map fst d)" and "map_of d ''error'' = Some err"
  shows "\<exists>e. check_response py_str (PDict d) = Inl e
           \<and> exn_class e = AddressFrException
           \<and> exn_message e = ''Error in response: '' @ format_field py_str err
           \<and> sublist (format_field py_str err) (exn_message e)
           \<and> (\<forall>s. err = PStr s \<longrightarrow> sublist s (exn_message e))"
proof -
  let ?text = "format_field py_str err"
  let ?e = "Exn AddressFrException (''Error in response: '' @ ?text) None"
  from assms(2) have ne: "d \<noteq> []" by auto
  from assms(2) have "py_in ''error'' (PDict d)" by (rule py_in_map_of)
  with assms ne have raised: "check_response py_str (PDict d) = Inl ?e"
    by (simp add: check_response_def)
  have sub: "sublist ?text (''Error in response: '' @ ?text)"
    by (rule sublist_append_leftI)
  have str: "\<forall>s. err = PStr s \<longrightarrow> sublist s (''Error in response: '' @ ?text)"
  proof (intro allI impI)
    fix s assume "err = PStr s"
    then have "?text = s" by (simp add: format_field_def)
    with sub show "sublist s (''Error in response: '' @ ?text)" by metis
  qed
  have "exn_class ?e = AddressFrException"
    and "exn_message ?e = ''Error in response: '' @ ?text"
    by (simp_all only: exn.sel)
  with raised sub str show ?thesis by metis
qed

theorem check_response_error_key_witness:
  "''features'' \<notin> set (map fst [(''error'', PStr ''bad query'')])
   \<and> map_of [(''error'', PStr ''bad query'')] ''error'' = Some (PStr ''bad query'')
   \<and> (\<exists>e. check_response (\<lambda>v. []) (PDict [(''error'', PStr ''bad query'')]) = Inl e
           \<and> exn_class e = AddressFrException
           \<and> exn_message e = ''Error in response: bad query''
           \<and> sublist ''bad query'' (exn_message e))"
  using check_response_error_key [of "[(''error'', PStr ''bad query'')]" "PStr ''bad query''" "\<lambda>v. []"]
  by (simp add: format_field_def)

text \<open>
  Claim C7. A body that is a non-empty dictionary with neither the key \<open>features\<close> nor the
  key \<open>error\<close> raises \<open>AddressFrException\<close> with a message that starts
  \<open>No features found\<close>.
\<close>

theorem check_response_no_features:
  assumes "d \<noteq> []" and "''features'' \<notin> set (map fst d)" and "''error'' \<notin> set (map fst d)"
  shows "check_response py_str (PDict d) =
           Inl (Exn AddressFrException ''No features found in the response.'' None)
         \<and> prefix ''No features found'' ''No features found in the response.''"
  using assms by (simp add: check_response_def)

theorem check_response_no_features_witness:
  "[(''type'', PStr ''FeatureCollection'')] \<noteq> []
   \<and> ''features'' \<notin> set (map fst [(''type'', PStr ''FeatureCollection'')])
   \<and> ''error'' \<notin> set (map fst [(''type'', PStr ''FeatureCollection'')])
   \<and> check_response (\<lambda>v. []) (PDict [(''type'', PStr ''FeatureCollection'')]) =
           Inl (Exn AddressFrException ''No features found in the response.'' None)"
  using check_response_no_features [of "[(''type'', PStr ''FeatureCollection'')]" "\<lambda>v. []"]
  by simp

text \<open>
  Claim C8. On every input the validator either returns through its first branch (the
  truthy value stored under \<open>features\<close> of a non-empty dictionary) or raises
  \<open>AddressNotFound\<close> or \<open>AddressFrException\<close>. The end of the function, which would return
  \<open>None\<close>, is never reached: \<open>None\<close> is not truthy, so it is not a first-branch result
  either.
\<close>

theorem check_response_total:
  "check_response py_str response \<noteq> Inr PNone
   \<and> (case check_response py_str response of
         Inr v \<Rightarrow> truthy response \<and> is_dict response \<and> py_in ''features'' response
                   \<and> py_getitem response ''features'' = Inr v \<and> truthy v
       | Inl e \<Rightarrow> exn_cause e = None
                   \<and> (exn_class e = AddressNotFound \<or> exn_class e = AddressFrException))"
proof (cases "truthy response \<and> is_dict response \<and> py_in ''features'' response")
  case True
  then obtain v where "py_getitem response ''features'' = Inr v"
    using py_getitem_in by blast
  with True show ?thesis by (auto simp: check_response_def)
next
  case False
  show ?thesis
  proof (cases "\<not> truthy response \<or> \<not> is_dict response")
    case True
    then show ?thesis by (auto simp: check_response_def)
  next
    case dict: False
    with False have nf: "\<not> py_in ''features'' response" by simp
    show ?thesis
    proof (cases "py_in ''error'' response")
      case True
      then obtain v where "py_getitem response ''error'' = Inr v"
        using py_getitem_in by blast
      with True dict nf show ?thesis by (simp add: check_response_def)
    next
      case False
      with dict nf show ?thesis by (simp add: check_response_def)
    qed
  qed
qed

theorem check_response_total_witness:
  "check_response (\<lambda>v. []) (PDict [(''features'', PList [PInt 1])]) = Inr (PList [PInt 1])
   \<and> check_response (\<lambda>v. []) (PDict [(''features'', PList [PInt 1])]) \<noteq> Inr PNone
   \<and> truthy (PList [PInt 1])"
  using check_response_total [of "\<lambda>v. []" "PDict [(''features'', PList [PInt 1])]"]
  by (simp add: check_response_def)

text \<open>
  Claim C10. The test on \<open>features\<close> is one of truthiness: in a dictionary body, a falsy
  value under \<open>features\<close> (\<open>None\<close>, \<open>0\<close>, the empty string, \<open>False\<close>, the empty list)
  raises \<open>AddressNotFound\<close>, and a truthy one, a non-empty string or a non-zero number
  included, is returned unchanged.
\<close>

theorem check_response_truthiness:
  assumes "map_of d ''features'' = Some v"
  shows "check_response py_str (PDict d) =
           (if truthy v then Inr v
            else Inl (Exn AddressNotFound ''No addresses found for the given query.'' None))
         \<and> (v \<in> {PNone, PInt 0, PFloat 0, PStr [], PBool False, PList [], PDict []} \<longrightarrow>
              check_response py_str (PDict d) =
                Inl (Exn AddressNotFound ''No addresses found for the given query.'' None))
         \<and> ((\<exists>c s. v = PStr (c # s)) \<or> (\<exists>i. v = PInt i \<and> i \<noteq> 0) \<or> v = PBool True \<longrightarrow>
              check_response py_str (PDict d) = Inr v)"
  using assms by (auto simp: check_response_has_features)

theorem check_response_truthiness_witness:
  "map_of [(''features'', PStr ''abc'')] ''features'' = Some (PStr ''abc'')
   \<and> check_response (\<lambda>v. []) (PDict [(''features'', PStr ''abc'')]) = Inr (PStr ''abc'')"
  using check_response_truthiness [of "[(''features'', PStr ''abc'')]" "PStr ''abc''" "\<lambda>v. []"]
  by simp

section \<open>Facts about the query parameters\<close>

lemma map_of_dict_setitem: "map_of (dict_setitem d k v) = (map_of d)(k \<mapsto> v)"
  by (induction d) (auto simp: fun_eq_iff)

lemma map_fst_dict_setitem:
  "map fst (dict_setitem d k v) = (if k \<in> set (map fst d) then map fst d else map fst d @ [k])"
proof (induction d)
  case Nil
  show ?case by simp
next
  case (Cons kv d)
  obtain k' v' where kv: "kv = (k', v')" by (cases kv)
  show ?case
  proof (cases "k' = k")
    case True
    then show ?thesis by (simp add: kv)
  next
    case False
    with Cons.IH show ?thesis by (simp add: kv)
  qed
qed

lemma keys_dict_setitem: "set (map fst (dict_setitem d k v)) = insert k (set (map fst d))"
  by (auto simp: map_fst_dict_setitem)

lemma distinct_dict_setitem:
  "distinct (map fst d) \<Longrightarrow> distinct (map fst (dict_setitem d k v))"
  by (simp add: map_fst_dict_setitem)

lemma dict_setitem_new: "k \<notin> set (map fst d) \<Longrightarrow> dict_setitem d k v = d @ [(k, v)]"
  by (induction d) auto

lemma dict_update_Nil: "dict_update d [] = d"
  by (simp add: dict_update_def)

lemma dict_update_Cons: "dict_update d ((k, v) # other) = dict_update (dict_setitem d k v) other"
  by (simp add: dict_update_def)

lemma map_of_dict_update: "map_of (dict_update d other) = map_of d ++ map_of (rev other)"
proof (induction other arbitrary: d)
  case Nil
  show ?case by (simp add: dict_update_Nil)
next
  case (Cons kv other)
  obtain k v where kv: "kv = (k, v)" by (cases kv)
  have "map_of (dict_update d (kv # other)) = (map_of d)(k \<mapsto> v) ++ map_of (rev other)"
    unfolding kv dict_update_Cons Cons.IH map_of_dict_setitem ..
  also have "\<dots> = map_of d ++ ([k \<mapsto> v] ++ map_of (rev other))"
  proof -
    have "(map_of d)(k \<mapsto> v) = map_of d ++ [k \<mapsto> v]" by simp
    then show ?thesis by (simp only: map_add_assoc)
  qed
  also have "[k \<mapsto> v] ++ map_of (rev other) = map_of (rev (kv # other))"
    by (simp add: kv map_of_append)
  finally show ?case .
qed

lemma map_of_rev_distinct: "distinct (map fst xs) \<Longrightarrow> map_of (rev xs) = map_of xs"
  by (subst map_of_inject_set) (simp_all flip: rev_map)

lemma keys_dict_update:
  "set (map fst (dict_update d other)) = set (map fst d) \<union> set (map fst other)"
proof (induction other arbitrary: d)
  case Nil
  show ?case by (simp add: dict_update_Nil)
next
  case (Cons kv other)
  obtain k v where kv: "kv = (k, v)" by (cases kv)
  show ?case
    unfolding kv dict_update_Cons Cons.IH keys_dict_setitem by auto
qed

lemma distinct_dict_update:
  "distinct (map fst d) \<Longrightarrow> distinct (map fst (dict_update d other))"
proof (induction other arbitrary: d)
  case Nil
  then show ?case by (simp add: dict_update_Nil)
next
  case (Cons kv other)
  obtain k v where kv: "kv = (k, v)" by (cases kv)
  from Cons.prems have "distinct (map fst (dict_setitem d k v))"
    by (rule distinct_dict_setitem)
  then show ?case unfolding kv dict_update_Cons by (rule Cons.IH)
qed

lemma dict_update_append:
  "distinct (map fst (d @ other)) \<Longrightarrow> dict_update d other = d @ other"
proof (induction other arbitrary: d)
  case Nil
  show ?case by (simp add: dict_update_Nil)
next
  case (Cons kv other)
  obtain k v where kv: "kv = (k, v)" by (cases kv)
  from Cons.prems have new: "k \<notin> set (map fst d)" by (auto simp: kv)
  from Cons.prems have "distinct (map fst ((d @ [(k, v)]) @ other))" by (auto simp: kv)
  then have "dict_update (d @ [(k, v)]) other = (d @ [(k, v)]) @ other" by (rule Cons.IH)
  with new show ?case by (simp add: kv dict_update_Cons dict_setitem_new)
qed

lemma search_params_map:
  "distinct (map fst kwargs) \<Longrightarrow>
   map_of (search_params query limit kwargs) = [''q'' \<mapsto> query, ''limit'' \<mapsto> limit] ++ map_of kwargs"
proof -
  assume "distinct (map fst kwargs)"
  then have "map_of (rev kwargs) = map_of kwargs" by (rule map_of_rev_distinct)
  moreover have "map_of [(''q'', query), (''limit'', limit)] = [''q'' \<mapsto> query, ''limit'' \<mapsto> limit]"
    by (auto simp: fun_eq_iff)
  moreover have "dict_setitem (dict_setitem [] ''q'' query) ''limit'' limit =
      [(''q'', query), (''limit'', limit)]"
    by simp
  ultimately show ?thesis by (simp only: search_params_def map_of_dict_update)
qed

lemma search_params_keys:
  "set (map fst (search_params query limit kwargs)) = {''q'', ''limit''} \<union> set (map fst kwargs)"
  unfolding search_params_def keys_dict_update by simp

lemma search_params_distinct: "distinct (map fst (search_params query limit kwargs))"
  unfolding search_params_def by (rule distinct_dict_update) simp

lemma search_params_plain:
  assumes "distinct (map fst kwargs)"
    and "''q'' \<notin> set (map fst kwargs)" and "''limit'' \<notin> set (map fst kwargs)"
  shows "search_params query limit kwargs = (''q'', query) # (''limit'', limit) # kwargs"
proof -
  from assms have "distinct (map fst ([(''q'', query), (''limit'', limit)] @ kwargs))"
    by auto
  then have "dict_update [(''q'', query), (''limit'', limit)] kwargs =
      [(''q'', query), (''limit'', limit)] @ kwargs"
    by (rule dict_update_append)
  then show ?thesis by (simp add: search_params_def)
qed

lemma reverse_params_id: "distinct (map fst kwargs) \<Longrightarrow> reverse_params kwargs = kwargs"
  using dict_update_append [of "[]" kwargs] by (simp add: reverse_params_def)

lemma sent_async_search:
  "sent (snd (async_search transport base_url py_str query limit kwargs w)) =
     sent w @ [\<lparr>http_method = ''GET'', http_path = base_url @ ''/search'',
                http_params = search_params query limit kwargs\<rparr>]"
  by (simp add: async_search_def async_request_def Let_def split: sum.splits)

lemma sent_async_reverse:
  "sent (snd (async_reverse transport base_url py_str kwargs w)) =
     sent w @ [\<lparr>http_method = ''GET'', http_path = base_url @ ''/reverse'',
                http_params = reverse_params kwargs\<rparr>]"
  by (simp add: async_reverse_def async_request_def Let_def split: sum.splits)

lemma bind_search_one:
  assumes "''self'' \<notin> set (map fst kws)" and "''query'' \<notin> set (map fst kws)"
  shows "bind_search [query] kws =
           Inr (query, (case map_of kws ''limit'' of None \<Rightarrow> PInt 10 | Some limit \<Rightarrow> limit),
                extra_keywords kws)"
  using assms by simp

lemma extra_keywords_id:
  "''query'' \<notin> set (map fst kws) \<Longrightarrow> ''limit'' \<notin> set (map fst kws) \<Longrightarrow> extra_keywords kws = kws"
  unfolding extra_keywords_def by (rule filter_True) force

lemma call_async_search_default:
  assumes "''self'' \<notin> set (map fst kwargs)" and "''query'' \<notin> set (map fst kwargs)"
    and "''limit'' \<notin> set (map fst kwargs)"
  shows "call_async_search transport base_url py_str [query] kwargs w =
           async_search transport base_url py_str query (PInt 10) kwargs w"
proof -
  from assms(3) have "map_of kwargs ''limit'' = None"
    by (simp add: map_of_eq_None_iff)
  with assms show ?thesis
    by (simp add: call_async_search_def extra_keywords_id)
qed

lemma call_async_search_positional:
  assumes "''self'' \<notin> set (map fst kwargs)" and "''query'' \<notin> set (map fst kwargs)"
    and "''limit'' \<notin> set (map fst kwargs)"
  shows "call_async_search transport base_url py_str [query, limit] kwargs w =
           async_search transport base_url py_str query limit kwargs w"
  using assms by (simp add: call_async_search_def extra_keywords_id)

text \<open>
  Claim C4. \<open>async_search\<close> sends one GET to \<open>API_BASE_URL + "/search"\<close> whose parameters
  are \<open>q\<close> and \<open>limit\<close> (10 when the caller gives none) merged with the keyword arguments,
  keys unchanged; \<open>async_reverse\<close> sends one GET to \<open>API_BASE_URL + "/reverse"\<close> with
  exactly the keyword arguments.
\<close>

theorem search_and_reverse_requests:
  assumes "distinct (map fst kwargs)"
  shows "sent (snd (async_search transport base_url py_str query limit kwargs w)) =
           sent w @ [\<lparr>http_method = ''GET'', http_path = base_url @ ''/search'',
                      http_params = search_params query limit kwargs\<rparr>]
         \<and> map_of (search_params query limit kwargs) =
             [''q'' \<mapsto> query, ''limit'' \<mapsto> limit] ++ map_of kwargs
         \<and> set (map fst (search_params query limit kwargs)) =
             {''q'', ''limit''} \<union> set (map fst kwargs)
         \<and> distinct (map fst (search_params query limit kwargs))
         \<and> (''q'' \<notin> set (map fst kwargs) \<and> ''limit'' \<notin> set (map fst kwargs) \<longrightarrow>
              search_params query limit kwargs = (''q'', query) # (''limit'', limit) # kwargs)
         \<and> (''self'' \<notin> set (map fst kwargs) \<and> ''query'' \<notin> set (map fst kwargs)
              \<and> ''limit'' \<notin> set (map fst kwargs) \<longrightarrow>
              call_async_search transport base_url py_str [query] kwargs w =
                async_search transport base_url py_str query (PInt 10) kwargs w
              \<and> call_async_search transport base_url py_str [query, limit] kwargs w =
                async_search transport base_url py_str query limit kwargs w)
         \<and> sent (snd (async_reverse transport base_url py_str kwargs w)) =
             sent w @ [\<lparr>http_method = ''GET'', http_path = base_url @ ''/reverse'',
                        http_params = kwargs\<rparr>]"
proof (intro conjI impI)
  show "sent (snd (async_search transport base_url py_str query limit kwargs w)) =
           sent w @ [\<lparr>http_method = ''GET'', http_path = base_url @ ''/search'',
                      http_params = search_params query limit kwargs\<rparr>]"
    by (rule sent_async_search)
  show "map_of (search_params query limit kwargs) =
      [''q'' \<mapsto> query, ''limit'' \<mapsto> limit] ++ map_of kwargs"
    using assms by (rule search_params_map)
  show "set (map fst (search_params query limit kwargs)) =
      {''q'', ''limit''} \<union> set (map fst kwargs)"
    by (rule search_params_keys)
  show "distinct (map fst (search_params query limit kwargs))"
    by (rule search_params_distinct)
  show "search_params query limit kwargs = (''q'', query) # (''limit'', limit) # kwargs"
    if "''q'' \<notin> set (map fst kwargs) \<and> ''limit'' \<notin> set (map fst kwargs)"
    using assms that by (blast intro: search_params_plain)
  show "call_async_search transport base_url py_str [query] kwargs w =
      async_search transport base_url py_str query (PInt 10) kwargs w"
    if "''self'' \<notin> set (map fst kwargs) \<and> ''query'' \<notin> set (map fst kwargs)
        \<and> ''limit'' \<notin> set (map fst kwargs)"
    using that by (blast intro: call_async_search_default)
  show "call_async_search transport base_url py_str [query, limit] kwargs w =
      async_search transport base_url py_str query limit kwargs w"
    if "''self'' \<notin> set (map fst kwargs) \<and> ''query'' \<notin> set (map fst kwargs)
        \<and> ''limit'' \<notin> set (map fst kwargs)"
    using that by (blast intro: call_async_search_positional)
  show "sent (snd (async_reverse transport base_url py_str kwargs w)) =
      sent w @ [\<lparr>http_method = ''GET'', http_path = base_url @ ''/reverse'',
                 http_params = kwargs\<rparr>]"
    using assms by (simp only: sent_async_reverse reverse_params_id)
qed

theorem search_and_reverse_requests_witness:
  "distinct (map fst [(''postcode'', PStr ''75004'')])
   \<and> sent (snd (call_async_search (\<lambda>c. Inr (PDict [])) ''https://host'' (\<lambda>v. [])
        [PStr ''10 rue de Rivoli''] [(''postcode'', PStr ''75004'')] \<lparr>sent = [], logged = []\<rparr>)) =
       [\<lparr>http_method = ''GET'', http_path = ''https://host/search'',
         http_params = [(''q'', PStr ''10 rue de Rivoli''), (''limit'', PInt 10),
                        (''postcode'', PStr ''75004'')]\<rparr>]
   \<and> sent (snd (async_reverse (\<lambda>c. Inr (PDict [])) ''https://host'' (\<lambda>v. [])
        [(''postcode'', PStr ''75004'')] \<lparr>sent = [], logged = []\<rparr>)) =
       [\<lparr>http_method = ''GET'', http_path = ''https://host/reverse'',
         http_params = [(''postcode'', PStr ''75004'')]\<rparr>]"
  using search_and_reverse_requests [of "[(''postcode'', PStr ''75004'')]"
      "\<lambda>c. Inr (PDict [])" "''https://host''" "\<lambda>v. []" "PStr ''10 rue de Rivoli''" "PInt 10"
      "\<lparr>sent = [], logged = []\<rparr>"]
  by simp

text \<open>
  Claim C2. When the request layer raises an \<open>HttpRequestError\<close>, \<open>async_search\<close> and
  \<open>async_reverse\<close> raise \<open>AddressNotFound\<close> with the message \<open>Address not found.\<close> and the
  transport error as its cause. Exactly one request has been sent (no retry), and the error
  is logged, not swallowed.
\<close>

theorem transport_error_not_found:
  assumes "exn_class err = HttpRequestError"
  shows "(transport \<lparr>http_method = ''GET'', http_path = base_url @ ''/search'',
                     http_params = search_params query limit kwargs\<rparr> = Inl err \<longrightarrow>
            async_search transport base_url py_str query limit kwargs w =
              (Inl (Exn AddressNotFound ''Address not found.'' (Some err)),
               w\<lparr>sent := sent w @ [\<lparr>http_method = ''GET'', http_path = base_url @ ''/search'',
                                      http_params = search_params query limit kwargs\<rparr>],
                 logged := logged w @ [''Failed to query address: '' @ exn_message err]\<rparr>))
         \<and> (transport \<lparr>http_method = ''GET'', http_path = base_url @ ''/reverse'',
                       http_params = reverse_params kwargs\<rparr> = Inl err \<longrightarrow>
            async_reverse transport base_url py_str kwargs w =
              (Inl (Exn AddressNotFound ''Address not found.'' (Some err)),
               w\<lparr>sent := sent w @ [\<lparr>http_method = ''GET'', http_path = base_url @ ''/reverse'',
                                      http_params = reverse_params kwargs\<rparr>],
                 logged := logged w @ [''Failed to query address: '' @ exn_message err]\<rparr>))
         \<and> prefix ''Address not found'' ''Address not found.''"
  using assms
  by (simp add: async_search_def async_reverse_def async_request_def Let_def)

theorem transport_error_not_found_witness:
  "exn_class (Exn HttpRequestError ''timeout'' None) = HttpRequestError
   \<and> async_search (\<lambda>c. Inl (Exn HttpRequestError ''timeout'' None)) ''https://host'' (\<lambda>v. [])
        (PStr ''Paris'') (PInt 10) [] \<lparr>sent = [], logged = []\<rparr> =
       (Inl (Exn AddressNotFound ''Address not found.''
               (Some (Exn HttpRequestError ''timeout'' None))),
        \<lparr>sent = [\<lparr>http_method = ''GET'', http_path = ''https://host/search'',
                  http_params = [(''q'', PStr ''Paris''), (''limit'', PInt 10)]\<rparr>],
         logged = [''Failed to query address: timeout'']\<rparr>)
   \<and> async_reverse (\<lambda>c. Inl (Exn HttpRequestError ''timeout'' None)) ''https://host'' (\<lambda>v. [])
        [(''lat'', PFloat 48.85), (''lon'', PFloat 2.35)] \<lparr>sent = [], logged = []\<rparr> =
       (Inl (Exn AddressNotFound ''Address not found.''
               (Some (Exn HttpRequestError ''timeout'' None))),
        \<lparr>sent = [\<lparr>http_method = ''GET'', http_path = ''https://host/reverse'',
                  http_params = [(''lat'', PFloat 48.85), (''lon'', PFloat 2.35)]\<rparr>],
         logged = [''Failed to query address: timeout'']\<rparr>)"
  using transport_error_not_found [of "Exn HttpRequestError ''timeout'' None"
      "\<lambda>c. Inl (Exn HttpRequestError ''timeout'' None)" "''https://host''"
      "PStr ''Paris''" "PInt 10" "[]" "\<lambda>v. []" "\<lparr>sent = [], logged = []\<rparr>"]
    transport_error_not_found [of "Exn HttpRequestError ''timeout'' None"
      "\<lambda>c. Inl (Exn HttpRequestError ''timeout'' None)" "''https://host''"
      "PStr ''Paris''" "PInt 10" "[(''lat'', PFloat 48.85), (''lon'', PFloat 2.35)]" "\<lambda>v. []"
      "\<lparr>sent = [], logged = []\<rparr>"]
  by (simp add: search_params_def reverse_params_def dict_update_def)

section \<open>Facts about binding the arguments of a call\<close>

lemma extra_keywords_map:
  "k \<noteq> ''query'' \<Longrightarrow> k \<noteq> ''limit'' \<Longrightarrow> map_of (extra_keywords kws) k = map_of kws k"
  unfolding extra_keywords_def by (induction kws) auto

lemma extra_keywords_distinct:
  "distinct (map fst kws) \<Longrightarrow> distinct (map fst (extra_keywords kws))"
  unfolding extra_keywords_def by (rule distinct_map_filter)

lemma extra_keywords_keys:
  "set (map fst (extra_keywords kws)) = set (map fst kws) - {''query'', ''limit''}"
  unfolding extra_keywords_def by force

lemma extra_keywords_no_limit: "''limit'' \<notin> set (map fst (extra_keywords kws))"
  by (subst extra_keywords_keys) simp

lemma extra_keywords_no_query: "''query'' \<notin> set (map fst (extra_keywords kws))"
  by (subst extra_keywords_keys) simp

lemma search_params_spread:
  assumes "distinct (map fst kwargs)" and "map_of kwargs k = Some v"
  shows "map_of (search_params query limit kwargs) k = Some v"
  using assms by (simp add: search_params_map map_add_Some_iff)

lemma search_params_limit:
  assumes "distinct (map fst kwargs)" and "''limit'' \<notin> set (map fst kwargs)"
  shows "map_of (search_params query limit kwargs) ''limit'' = Some limit"
proof -
  from assms(2) have "map_of kwargs ''limit'' = None" by (simp add: map_of_eq_None_iff)
  with assms(1) show ?thesis by (simp add: search_params_map map_add_Some_iff)
qed

lemma bind_search_kwargs:
  "bind_search args kws = Inr (query, limit, kwargs) \<Longrightarrow> kwargs = extra_keywords kws"
  by (induction args kws rule: bind_search.induct) (auto split: if_splits option.splits)

lemma sent_call_async_search:
  assumes "bind_search args kws = Inr (query, limit, kwargs)"
  shows "sent (snd (call_async_search transport base_url py_str args kws w)) =
           sent w @ [\<lparr>http_method = ''GET'', http_path = base_url @ ''/search'',
                      http_params = search_params query limit kwargs\<rparr>]"
  using assms by (simp add: call_async_search_def sent_async_search)

lemma keyword_q_two_positional:
  assumes "distinct (map fst kws)"
    and "''self'' \<notin> set (map fst kws)" and "''query'' \<notin> set (map fst kws)"
    and "''limit'' \<notin> set (map fst kws)" and "map_of kws ''q'' = Some v"
  shows "\<exists>c. sent (snd (call_async_search transport base_url py_str [query, limit] kws w)) =
               sent w @ [c]
             \<and> map_of (http_params c) ''q'' = Some v
             \<and> map_of (http_params c) ''limit'' = Some limit"
proof -
  let ?c = "\<lparr>http_method = ''GET'', http_path = base_url @ ''/search'',
             http_params = search_params query limit kws\<rparr>"
  from assms have "bind_search [query, limit] kws = Inr (query, limit, kws)"
    by (simp add: extra_keywords_id)
  then have "sent (snd (call_async_search transport base_url py_str [query, limit] kws w)) =
      sent w @ [?c]"
    by (rule sent_call_async_search)
  moreover from assms have "map_of (http_params ?c) ''q'' = Some v"
    by (simp add: search_params_spread)
  moreover from assms have "map_of (http_params ?c) ''limit'' = Some limit"
    by (simp add: search_params_limit)
  ultimately show ?thesis by blast
qed

lemma keyword_one_positional:
  assumes "distinct (map fst kws)"
    and "''self'' \<notin> set (map fst kws)" and "''query'' \<notin> set (map fst kws)"
  shows "\<exists>c. sent (snd (call_async_search transport base_url py_str [query] kws w)) =
               sent w @ [c]
             \<and> (\<forall>v. map_of kws ''q'' = Some v \<longrightarrow> map_of (http_params c) ''q'' = Some v)
             \<and> (\<forall>l. map_of kws ''limit'' = Some l \<longrightarrow> map_of (http_params c) ''limit'' = Some l)"
proof -
  let ?limit = "case map_of kws ''limit'' of None \<Rightarrow> PInt 10 | Some limit \<Rightarrow> limit"
  let ?c = "\<lparr>http_method = ''GET'', http_path = base_url @ ''/search'',
             http_params = search_params query ?limit (extra_keywords kws)\<rparr>"
  have dist: "distinct (map fst (extra_keywords kws))"
    using assms(1) by (rule extra_keywords_distinct)
  from assms have "bind_search [query] kws = Inr (query, ?limit, extra_keywords kws)"
    by simp
  then have "sent (snd (call_async_search transport base_url py_str [query] kws w)) =
      sent w @ [?c]"
    by (rule sent_call_async_search)
  moreover have "map_of (http_params ?c) ''q'' = Some v" if "map_of kws ''q'' = Some v" for v
    using that dist by (simp add: search_params_spread extra_keywords_map)
  moreover have "map_of (http_params ?c) ''limit'' = Some l" if "map_of kws ''limit'' = Some l" for l
  proof -
    have "map_of (search_params query l (extra_keywords kws)) ''limit'' = Some l"
      using dist extra_keywords_no_limit by (rule search_params_limit)
    with that show ?thesis by simp
  qed
  ultimately show ?thesis by blast
qed

lemma limit_given_twice:
  assumes "''self'' \<notin> set (map fst kws)" and "''query'' \<notin> set (map fst kws)"
    and "''limit'' \<in> set (map fst kws)"
  shows "call_async_search transport base_url py_str [query, limit] kws w =
           (Inl (Exn TypeError ''multiple values for limit'' None), w)"
  using assms by (simp add: call_async_search_def)

text \<open>
  Claim C9, as amended. An extra keyword argument named \<open>q\<close> wins over the positional
  \<open>query\<close> in the parameters sent, because \<open>**kwargs\<close> is spread after the fixed entries. A
  keyword argument named \<open>limit\<close> never reaches \<open>kwargs\<close>: it is the \<open>limit\<close> parameter
  itself, sent as \<open>limit\<close>; given together with a positional \<open>limit\<close> it is a
  \<open>TypeError\<close>, raised before anything is sent.
\<close>

theorem keyword_precedence:
  assumes "distinct (map fst kws)"
    and "''self'' \<notin> set (map fst kws)" and "''query'' \<notin> set (map fst kws)"
  shows "(\<forall>v. map_of kws ''q'' = Some v \<and> ''limit'' \<notin> set (map fst kws) \<longrightarrow>
            (\<exists>c. sent (snd (call_async_search transport base_url py_str [query, limit] kws w)) =
                   sent w @ [c]
                 \<and> map_of (http_params c) ''q'' = Some v
                 \<and> map_of (http_params c) ''limit'' = Some limit))
         \<and> (\<exists>c. sent (snd (call_async_search transport base_url py_str [query] kws w)) =
                   sent w @ [c]
                 \<and> (\<forall>v. map_of kws ''q'' = Some v \<longrightarrow> map_of (http_params c) ''q'' = Some v)
                 \<and> (\<forall>l. map_of kws ''limit'' = Some l \<longrightarrow>
                        map_of (http_params c) ''limit'' = Some l))
         \<and> (''limit'' \<in> set (map fst kws) \<longrightarrow>
            call_async_search transport base_url py_str [query, limit] kws w =
              (Inl (Exn TypeError ''multiple values for limit'' None), w))
         \<and> (\<forall>args q' l' kwargs. bind_search args kws = Inr (q', l', kwargs) \<longrightarrow>
              ''limit'' \<notin> set (map fst kwargs) \<and> ''query'' \<notin> set (map fst kwargs))
         \<and> (\<forall>k v l'. map_of kws k = Some v \<longrightarrow>
              map_of (search_params query l' kws) k = Some v)"
proof (intro conjI allI impI)
  fix v
  assume "map_of kws ''q'' = Some v \<and> ''limit'' \<notin> set (map fst kws)"
  with assms
  show "\<exists>c. sent (snd (call_async_search transport base_url py_str [query, limit] kws w)) =
               sent w @ [c]
             \<and> map_of (http_params c) ''q'' = Some v
             \<and> map_of (http_params c) ''limit'' = Some limit"
    by (blast intro: keyword_q_two_positional)
next
  from assms
  show "\<exists>c. sent (snd (call_async_search transport base_url py_str [query] kws w)) =
               sent w @ [c]
             \<and> (\<forall>v. map_of kws ''q'' = Some v \<longrightarrow> map_of (http_params c) ''q'' = Some v)
             \<and> (\<forall>l. map_of kws ''limit'' = Some l \<longrightarrow> map_of (http_params c) ''limit'' = Some l)"
    by (rule keyword_one_positional)
next
  assume "''limit'' \<in> set (map fst kws)"
  with assms(2,3)
  show "call_async_search transport base_url py_str [query, limit] kws w =
          (Inl (Exn TypeError ''multiple values for limit'' None), w)"
    by (rule limit_given_twice)
next
  fix args q' l' kwargs
  assume "bind_search args kws = Inr (q', l', kwargs)"
  then have kw: "kwargs = extra_keywords kws" by (rule bind_search_kwargs)
  show "''limit'' \<notin> set (map fst kwargs)" unfolding kw by (rule extra_keywords_no_limit)
  show "''query'' \<notin> set (map fst kwargs)" unfolding kw by (rule extra_keywords_no_query)
next
  fix k v l'
  assume "map_of kws k = Some v"
  with assms(1) show "map_of (search_params query l' kws) k = Some v"
    by (rule search_params_spread)
qed

theorem keyword_precedence_witness:
  "distinct (map fst [(''q'', PStr ''Lyon'')])
   \<and> ''self'' \<notin> set (map fst [(''q'', PStr ''Lyon'')])
   \<and> ''query'' \<notin> set (map fst [(''q'', PStr ''Lyon'')])
   \<and> sent (snd (call_async_search (\<lambda>c. Inr (PDict [])) ''https://host'' (\<lambda>v. [])
        [PStr ''Paris'', PInt 3] [(''q'', PStr ''Lyon'')] \<lparr>sent = [], logged = []\<rparr>)) =
       [\<lparr>http_method = ''GET'', http_path = ''https://host/search'',
         http_params = [(''q'', PStr ''Lyon''), (''limit'', PInt 3)]\<rparr>]"
  using keyword_precedence [of "[(''q'', PStr ''Lyon'')]" "\<lambda>c. Inr (PDict [])" "''https://host''"
      "\<lambda>v. []" "PStr ''Paris''" "PInt 3" "\<lparr>sent = [], logged = []\<rparr>"]
  by (simp add: call_async_search_def extra_keywords_def async_search_def async_request_def
      search_params_def dict_update_def)

text \<open>
  Claim C9 as first stated fails for \<open>limit\<close>: the call
  \<open>async_search("Paris", 10, limit=5)\<close> raises \<open>TypeError\<close> and sends no request, so no
  keyword value takes precedence over the positional one.
\<close>

theorem keyword_limit_counterexample:
  "call_async_search (\<lambda>c. Inr (PDict [])) ''https://host'' (\<lambda>v. [])
      [PStr ''Paris'', PInt 10] [(''limit'', PInt 5)] \<lparr>sent = [], logged = []\<rparr> =
     (Inl (Exn TypeError ''multiple values for limit'' None), \<lparr>sent = [], logged = []\<rparr>)"
  by (simp add: call_async_search_def)

end
